theory Spec2Isabelle
  imports Main
begin

section \<open>License keys (lib/payment/license-generator)\<close>













section \<open>Request authenticator (lib/security/hmac.ts)\<close>

text \<open>
  What a JavaScript call can throw is a value of \<open>error\<close>; a function that can throw
  returns \<open>error + 'a\<close>, with \<open>Inl\<close> for the exception.
\<close>

datatype error = TypeError | RangeError | DbError | JWTError

record 'p SignedRequest =
  payload :: 'p
  timestamp :: int
  signature :: string

text \<open>
  \<^verbatim>\<open>Buffer.from(s, 'hex')\<close> decodes pairs of hexadecimal digits and stops at the first pair
  that is not one; a trailing single character is dropped.
\<close>

definition hexVal :: "char \<Rightarrow> nat option" where
  "hexVal c =
     (let n = (of_char c :: nat) in
      if 48 \<le> n \<and> n \<le> 57 then Some (n - 48)
      else if 97 \<le> n \<and> n \<le> 102 then Some (n - 87)
      else if 65 \<le> n \<and> n \<le> 70 then Some (n - 55)
      else None)"

fun bufferFromHex :: "string \<Rightarrow> nat list" where
  "bufferFromHex (a # b # rest) =
     (case (hexVal a, hexVal b) of
        (Some x, Some y) \<Rightarrow> (16 * x + y) # bufferFromHex rest
      | _ \<Rightarrow> [])"
| "bufferFromHex _ = []"

text \<open>\<^verbatim>\<open>crypto.timingSafeEqual\<close> throws a RangeError on buffers of different lengths.\<close>

definition timingSafeEqual :: "nat list \<Rightarrow> nat list \<Rightarrow> error + bool" where
  "timingSafeEqual a b = (if length a \<noteq> length b then Inl RangeError else Inr (a = b))"

text \<open>
  The library functions are arguments of the model: \<open>stringify p t\<close> is
  \<^verbatim>\<open>JSON.stringify({payload: p, timestamp: t})\<close> (\<open>None\<close> when it throws, as on a cyclic
  value), \<open>hmac k m\<close> is the hexadecimal digest
  \<^verbatim>\<open>createHmac('sha256', k).update(m).digest('hex')\<close>, and \<open>now\<close> is what \<^verbatim>\<open>Date.now()\<close>
  returns, in milliseconds.
\<close>

definition signRequest ::
  "('p \<Rightarrow> int \<Rightarrow> string option) \<Rightarrow> (string \<Rightarrow> string \<Rightarrow> string) \<Rightarrow> int \<Rightarrow>
   'p \<Rightarrow> string \<Rightarrow> error + 'p SignedRequest" where
  "signRequest stringify hmac now p apiSecret =
     (case stringify p now of
        None \<Rightarrow> Inl TypeError
      | Some message \<Rightarrow>
          Inr \<lparr>payload = p, timestamp = now, signature = hmac apiSecret message\<rparr>)"

definition verifyRequest ::
  "('p \<Rightarrow> int \<Rightarrow> string option) \<Rightarrow> (string \<Rightarrow> string \<Rightarrow> string) \<Rightarrow> int \<Rightarrow>
   'p SignedRequest \<Rightarrow> string \<Rightarrow> int \<Rightarrow> error + bool" where
  "verifyRequest stringify hmac now request apiSecret maxAge =
     (let age = now - timestamp request in
      if age > maxAge \<or> age < 0 then Inr False
      else
        (case stringify (payload request) (timestamp request) of
           None \<Rightarrow> Inl TypeError
         | Some message \<Rightarrow>
             (let expectedSignature = hmac apiSecret message in
              case timingSafeEqual (bufferFromHex (signature request))
                                   (bufferFromHex expectedSignature) of
                Inl e \<Rightarrow> Inr False
              | Inr b \<Rightarrow> Inr b)))"

section \<open>Rate limiter (lib/security/rate-limit)\<close>

text \<open>
  An awaited call returns its value or throws, and may change the state on the way:
  \<open>(error + 'a) \<times> 's\<close>. \<open>andThen\<close> is the code after an \<^verbatim>\<open>await\<close>: it runs on the value,
  and an exception skips it.
\<close>

definition andThen ::
  "(error + 'a) \<times> 's \<Rightarrow> ('a \<Rightarrow> 's \<Rightarrow> (error + 'b) \<times> 's) \<Rightarrow> (error + 'b) \<times> 's" where
  "andThen m f = (case m of (Inl e, s) \<Rightarrow> (Inl e, s) | (Inr a, s) \<Rightarrow> f a s)"

record RateLimitEntry =
  count :: int
  resetAt :: int

record RateLimitConfig =
  limit :: int
  windowMs :: int

record RateLimitResult =
  success :: bool
  resultLimit :: int
  remaining :: int
  reset :: int

text \<open>
  The limiter's state: the in-process \<^verbatim>\<open>rateLimitCache\<close>, the \<^verbatim>\<open>rateLimit\<close> table of the
  durable store, and the number of store calls made so far. Whether a store call throws
  is decided by the environment: \<open>outage n\<close> says that the call number \<open>n\<close> fails.
\<close>

record limiterState =
  rateLimitCache :: "string \<rightharpoonup> RateLimitEntry"
  rateLimitTable :: "string \<rightharpoonup> RateLimitEntry"
  storeCalls :: nat

definition emptyLimiter :: limiterState where
  "emptyLimiter = \<lparr>rateLimitCache = Map.empty, rateLimitTable = Map.empty, storeCalls = 0\<rparr>"

definition rateLimitFindUnique ::
  "(nat \<Rightarrow> bool) \<Rightarrow> string \<Rightarrow> limiterState \<Rightarrow> (error + RateLimitEntry option) \<times> limiterState" where
  "rateLimitFindUnique outage key st =
     (let st' = st\<lparr>storeCalls := storeCalls st + 1\<rparr> in
      if outage (storeCalls st) then (Inl DbError, st') else (Inr (rateLimitTable st key), st'))"

definition rateLimitUpsert ::
  "(nat \<Rightarrow> bool) \<Rightarrow> string \<Rightarrow> RateLimitEntry \<Rightarrow> limiterState \<Rightarrow> (error + unit) \<times> limiterState" where
  "rateLimitUpsert outage key entry st =
     (let st' = st\<lparr>storeCalls := storeCalls st + 1\<rparr> in
      if outage (storeCalls st) then (Inl DbError, st')
      else (Inr (), st'\<lparr>rateLimitTable := (rateLimitTable st')(key \<mapsto> entry)\<rparr>))"

text \<open>
  \<^verbatim>\<open>getFromSupabase\<close> and \<^verbatim>\<open>saveToSupabase\<close> wrap their store call in \<^verbatim>\<open>try/catch\<close>: the
  exception is logged and the function returns \<^verbatim>\<open>null\<close> (nothing). \<open>dbNow\<close> is the
  \<^verbatim>\<open>Date.now()\<close> read inside \<^verbatim>\<open>getFromSupabase\<close>.
\<close>

definition getFromSupabase ::
  "(nat \<Rightarrow> bool) \<Rightarrow> int \<Rightarrow> string \<Rightarrow> limiterState \<Rightarrow> (error + RateLimitEntry option) \<times> limiterState" where
  "getFromSupabase outage dbNow key st =
     (case rateLimitFindUnique outage key st of
        (Inl e, st') \<Rightarrow> (Inr None, st')
      | (Inr None, st') \<Rightarrow> (Inr None, st')
      | (Inr (Some row), st') \<Rightarrow>
          if resetAt row < dbNow then (Inr None, st')
          else (Inr (Some \<lparr>count = count row, resetAt = resetAt row\<rparr>), st'))"

definition saveToSupabase ::
  "(nat \<Rightarrow> bool) \<Rightarrow> string \<Rightarrow> RateLimitEntry \<Rightarrow> limiterState \<Rightarrow> (error + unit) \<times> limiterState" where
  "saveToSupabase outage key entry st =
     (case rateLimitUpsert outage key entry st of
        (Inl e, st') \<Rightarrow> (Inr (), st')
      | (Inr u, st') \<Rightarrow> (Inr (), st'))"

text \<open>
  \<^verbatim>\<open>checkRateLimit\<close>. The entry object is shared with the cache, so its increment is a
  write to the cache. The last \<^verbatim>\<open>saveToSupabase\<close> is not awaited and carries a
  \<^verbatim>\<open>.catch\<close>: its store call is issued before the function returns, and here it also
  completes there.
\<close>

definition openWindow ::
  "(nat \<Rightarrow> bool) \<Rightarrow> int \<Rightarrow> string \<Rightarrow> RateLimitConfig \<Rightarrow> limiterState \<Rightarrow>
   (error + RateLimitEntry) \<times> limiterState" where
  "openWindow outage now key config st =
     (let entry = \<lparr>count = 0, resetAt = now + windowMs config\<rparr>;
          st1 = st\<lparr>rateLimitCache := (rateLimitCache st)(key \<mapsto> entry)\<rparr>
      in andThen (saveToSupabase outage key entry st1) (\<lambda>u st2. (Inr entry, st2)))"

definition loadEntry ::
  "(nat \<Rightarrow> bool) \<Rightarrow> int \<Rightarrow> int \<Rightarrow> string \<Rightarrow> RateLimitConfig \<Rightarrow> limiterState \<Rightarrow>
   (error + RateLimitEntry) \<times> limiterState" where
  "loadEntry outage now dbNow key config st =
     andThen (getFromSupabase outage dbNow key st)
       (\<lambda>dbEntry st1.
          case dbEntry of
            None \<Rightarrow> openWindow outage now key config st1
          | Some d \<Rightarrow>
              if resetAt d > now
              then (Inr d, st1\<lparr>rateLimitCache := (rateLimitCache st1)(key \<mapsto> d)\<rparr>)
              else openWindow outage now key config st1)"

definition checkRateLimit ::
  "(nat \<Rightarrow> bool) \<Rightarrow> int \<Rightarrow> int \<Rightarrow> string \<Rightarrow> RateLimitConfig \<Rightarrow> string \<Rightarrow> limiterState \<Rightarrow>
   (error + RateLimitResult) \<times> limiterState" where
  "checkRateLimit outage now dbNow identifier config prefix st =
     (let key = prefix @ '':'' @ identifier in
      andThen
        (case rateLimitCache st key of
           None \<Rightarrow> loadEntry outage now dbNow key config st
         | Some cached \<Rightarrow>
             if resetAt cached < now then loadEntry outage now dbNow key config st
             else (Inr cached, st))
        (\<lambda>entry st1.
           let entry' = entry\<lparr>count := count entry + 1\<rparr>;
               result = \<lparr>success = (count entry' \<le> limit config),
                         resultLimit = limit config,
                         remaining = max 0 (limit config - count entry'),
                         reset = resetAt entry'\<rparr>;
               st2 = st1\<lparr>rateLimitCache := (rateLimitCache st1)(key \<mapsto> entry')\<rparr>
           in andThen (saveToSupabase outage key entry' st2) (\<lambda>u st3. (Inr result, st3))))"




section \<open>Token issuer (lib/security/jwt)\<close>

text \<open>
  The tokens are made and checked by the \<^verbatim>\<open>jose\<close> library. A compact JWS is represented
  by what it carries: the claim set, and the key whose HS256 signature it bears. A string
  that is no JWS at all is \<open>Garbage\<close>. Times inside a token are in seconds;
  \<open>now\<close> is \<^verbatim>\<open>Date.now()\<close> in milliseconds.
\<close>

record Claims =
  licenseId :: string
  userId :: string
  email :: "string option"

record JWTPayload = Claims +
  iat :: "int option"
  exp :: "int option"

record token =
  tokClaims :: Claims
  tokType :: "string option"
  tokIat :: int
  tokIss :: string
  tokAud :: string
  tokExp :: int
  tokKey :: string

datatype jwt = Garbage | Signed token

definition JWT_ISSUER :: string where
  "JWT_ISSUER = ''slothunter''"

definition JWT_AUDIENCE :: string where
  "JWT_AUDIENCE = ''slothunter-extension''"

definition epochSeconds :: "int \<Rightarrow> int" where
  "epochSeconds now = now div 1000"

definition signAccessToken :: "string \<Rightarrow> int \<Rightarrow> Claims \<Rightarrow> jwt" where
  "signAccessToken jwtSecret now p =
     Signed \<lparr>tokClaims = p, tokType = None, tokIat = epochSeconds now,
             tokIss = JWT_ISSUER, tokAud = JWT_AUDIENCE,
             tokExp = epochSeconds now + 3600, tokKey = jwtSecret\<rparr>"

definition signRefreshToken :: "string \<Rightarrow> int \<Rightarrow> Claims \<Rightarrow> jwt" where
  "signRefreshToken jwtSecret now p =
     Signed \<lparr>tokClaims = p, tokType = Some ''refresh'', tokIat = epochSeconds now,
             tokIss = JWT_ISSUER, tokAud = JWT_AUDIENCE,
             tokExp = epochSeconds now + 7 * 24 * 3600, tokKey = jwtSecret\<rparr>"

text \<open>
  \<^verbatim>\<open>jose.jwtVerify(token, key, {issuer, audience})\<close>: the signature must be the key's, the
  \<^verbatim>\<open>iss\<close> and \<^verbatim>\<open>aud\<close> claims must be the expected ones, and \<^verbatim>\<open>exp\<close> must lie after the
  current second. Nothing else is asked of the claims.
\<close>

definition jwtVerify :: "jwt \<Rightarrow> string \<Rightarrow> string \<Rightarrow> string \<Rightarrow> int \<Rightarrow> error + token" where
  "jwtVerify t k issuer audience now =
     (case t of
        Garbage \<Rightarrow> Inl JWTError
      | Signed tok \<Rightarrow>
          if tokKey tok \<noteq> k then Inl JWTError
          else if tokIss tok \<noteq> issuer then Inl JWTError
          else if tokAud tok \<noteq> audience then Inl JWTError
          else if tokExp tok \<le> epochSeconds now then Inl JWTError
          else Inr tok)"

definition verifyJWT :: "string \<Rightarrow> int \<Rightarrow> jwt \<Rightarrow> JWTPayload option" where
  "verifyJWT jwtSecret now t =
     (case jwtVerify t jwtSecret JWT_ISSUER JWT_AUDIENCE now of
        Inl e \<Rightarrow> None
      | Inr tok \<Rightarrow>
          Some \<lparr>licenseId = licenseId (tokClaims tok), userId = userId (tokClaims tok),
                email = email (tokClaims tok), iat = Some (tokIat tok), exp = Some (tokExp tok)\<rparr>)"

text \<open>The \<^verbatim>\<open>Authorization\<close> header, and \<^verbatim>\<open>extractBearerToken\<close>.\<close>

datatype authHeader = Bearer jwt | OtherScheme string

definition extractBearerToken :: "authHeader option \<Rightarrow> jwt option" where
  "extractBearerToken h = (case h of Some (Bearer t) \<Rightarrow> Some t | _ \<Rightarrow> None)"

section \<open>Licenses and the relational store\<close>

datatype LicenseStatus = INACTIVE | ACTIVE | EXPIRED

datatype PlanType = MONTHLY | ANNUAL | LIFETIME

text \<open>
  A row of the \<^verbatim>\<open>License\<close> table with the fields the routes read or write; \<open>ownerEmail\<close>
  is the \<^verbatim>\<open>user.email\<close> the queries include. Instants are milliseconds, a nullable
  column is an option.
\<close>

record License =
  licId :: string
  licKey :: string
  licUserId :: string
  ownerEmail :: string
  planType :: PlanType
  status :: LicenseStatus
  isBanned :: bool
  bannedReason :: "string option"
  bannedAt :: "int option"
  browserFingerprint :: "string option"
  hardwareFingerprint :: "string option"
  deviceName :: "string option"
  activationCount :: int
  maxActivations :: int
  expiresAt :: "int option"
  lastValidatedAt :: "int option"
  lastValidatedIp :: "string option"

record ValidationLog =
  vlLicenseId :: string
  vlBrowserFingerprint :: string
  vlHardwareFingerprint :: "string option"
  vlIpAddress :: string
  vlUserAgent :: string
  vlResult :: string
  vlFailureReason :: "string option"
  vlExtensionVersion :: string

record DeviceSwapLog =
  swapLogId :: nat
  slLicenseId :: string
  oldBrowserFingerprint :: string
  newBrowserFingerprint :: string
  slIpAddress :: string
  slReason :: "string option"
  approved :: bool

record WebConfig =
  version :: string
  checksum :: string

record ConfigDeliveryLog =
  cdLicenseId :: string
  cdConfigVersion :: string
  cdExtensionVersion :: string

text \<open>
  Everything a request can read or change: the tables, the number of calls made to the
  relational store so far, and the rate limiter.
\<close>

record world =
  licenses :: "License list"
  validationLogs :: "ValidationLog list"
  deviceSwapLogs :: "DeviceSwapLog list"
  configDeliveryLogs :: "ConfigDeliveryLog list"
  activeConfig :: "WebConfig option"
  dbCalls :: nat
  limiter :: limiterState

text \<open>
  A call to the store: it throws when the environment says that this call fails
  (\<open>outage n\<close> for the call number \<open>n\<close>), and runs otherwise.
\<close>

definition storeCall ::
  "(nat \<Rightarrow> bool) \<Rightarrow> (world \<Rightarrow> (error + 'a) \<times> world) \<Rightarrow> world \<Rightarrow> (error + 'a) \<times> world" where
  "storeCall outage act w =
     (let w' = w\<lparr>dbCalls := dbCalls w + 1\<rparr> in
      if outage (dbCalls w) then (Inl DbError, w') else act w')"

definition findLicenseByKey ::
  "(nat \<Rightarrow> bool) \<Rightarrow> string \<Rightarrow> world \<Rightarrow> (error + License option) \<times> world" where
  "findLicenseByKey outage k =
     storeCall outage (\<lambda>w. (Inr (find (\<lambda>l. licKey l = k) (licenses w)), w))"

definition findLicenseById ::
  "(nat \<Rightarrow> bool) \<Rightarrow> string \<Rightarrow> world \<Rightarrow> (error + License option) \<times> world" where
  "findLicenseById outage i =
     storeCall outage (\<lambda>w. (Inr (find (\<lambda>l. licId l = i) (licenses w)), w))"

text \<open>\<^verbatim>\<open>prisma.license.update\<close> throws when no row has the id.\<close>

definition updateLicense ::
  "(nat \<Rightarrow> bool) \<Rightarrow> string \<Rightarrow> (License \<Rightarrow> License) \<Rightarrow> world \<Rightarrow> (error + unit) \<times> world" where
  "updateLicense outage i f =
     storeCall outage
       (\<lambda>w. if list_ex (\<lambda>l. licId l = i) (licenses w)
            then (Inr (), w\<lparr>licenses := map (\<lambda>l. if licId l = i then f l else l) (licenses w)\<rparr>)
            else (Inl DbError, w))"

definition createValidationLog ::
  "(nat \<Rightarrow> bool) \<Rightarrow> ValidationLog \<Rightarrow> world \<Rightarrow> (error + unit) \<times> world" where
  "createValidationLog outage v =
     storeCall outage (\<lambda>w. (Inr (), w\<lparr>validationLogs := validationLogs w @ [v]\<rparr>))"

definition createDeviceSwapLog ::
  "(nat \<Rightarrow> bool) \<Rightarrow> (nat \<Rightarrow> DeviceSwapLog) \<Rightarrow> world \<Rightarrow> (error + DeviceSwapLog) \<times> world" where
  "createDeviceSwapLog outage mk =
     storeCall outage
       (\<lambda>w. let row = mk (length (deviceSwapLogs w))
            in (Inr row, w\<lparr>deviceSwapLogs := deviceSwapLogs w @ [row]\<rparr>))"

definition findActiveConfig ::
  "(nat \<Rightarrow> bool) \<Rightarrow> world \<Rightarrow> (error + WebConfig option) \<times> world" where
  "findActiveConfig outage = storeCall outage (\<lambda>w. (Inr (activeConfig w), w))"

definition createConfigDeliveryLog ::
  "(nat \<Rightarrow> bool) \<Rightarrow> ConfigDeliveryLog \<Rightarrow> world \<Rightarrow> (error + unit) \<times> world" where
  "createConfigDeliveryLog outage d =
     storeCall outage (\<lambda>w. (Inr (), w\<lparr>configDeliveryLogs := configDeliveryLogs w @ [d]\<rparr>))"

text \<open>\<^verbatim>\<open>validationLog.groupBy({by: ['browserFingerprint'], where: {licenseId}})\<close>.\<close>

definition groupValidationLogs ::
  "(nat \<Rightarrow> bool) \<Rightarrow> string \<Rightarrow> world \<Rightarrow> (error + string list) \<times> world" where
  "groupValidationLogs outage i =
     storeCall outage
       (\<lambda>w. (Inr (remdups (map vlBrowserFingerprint
                 (filter (\<lambda>v. vlLicenseId v = i) (validationLogs w)))), w))"

text \<open>JavaScript truthiness of a nullable string, and \<^verbatim>\<open>v || d\<close>.\<close>

definition truthy :: "string option \<Rightarrow> bool" where
  "truthy v = (case v of None \<Rightarrow> False | Some x \<Rightarrow> x \<noteq> [])"

definition orDefault :: "string option \<Rightarrow> string \<Rightarrow> string" where
  "orDefault v d = (case v of None \<Rightarrow> d | Some x \<Rightarrow> if x = [] then d else x)"

section \<open>Device binding manager (lib/security/device-binding)\<close>

datatype bindingError = DEVICE_MISMATCH | MAX_ACTIVATIONS_REACHED

record DeviceBindingResult =
  isValid :: bool
  isFirstActivation :: bool
  canSwap :: bool
  swapsRemaining :: int
  boundDevice :: "string option"
  errorCode :: "bindingError option"

text \<open>
  A \<^verbatim>\<open>DeviceFingerprint\<close> is passed as its two fields: the browser fingerprint and the
  optional hardware fingerprint.
\<close>

definition checkDeviceBinding ::
  "(nat \<Rightarrow> bool) \<Rightarrow> string \<Rightarrow> string \<Rightarrow> world \<Rightarrow> (error + DeviceBindingResult) \<times> world" where
  "checkDeviceBinding outage i fp w =
     andThen (findLicenseById outage i w)
       (\<lambda>found w1.
          case found of
            None \<Rightarrow>
              (Inr \<lparr>isValid = False, isFirstActivation = False, canSwap = False,
                    swapsRemaining = 0, boundDevice = None, errorCode = None\<rparr>, w1)
          | Some l \<Rightarrow>
              if \<not> truthy (browserFingerprint l) then
                (Inr \<lparr>isValid = True, isFirstActivation = True, canSwap = False,
                      swapsRemaining = maxActivations l - activationCount l,
                      boundDevice = None, errorCode = None\<rparr>, w1)
              else if browserFingerprint l = Some fp then
                (Inr \<lparr>isValid = True, isFirstActivation = False, canSwap = False,
                      swapsRemaining = maxActivations l - activationCount l,
                      boundDevice = (if truthy (deviceName l) then deviceName l else None),
                      errorCode = None\<rparr>, w1)
              else
                (let swappable = activationCount l < maxActivations l in
                 (Inr \<lparr>isValid = False, isFirstActivation = False, canSwap = swappable,
                       swapsRemaining = max 0 (maxActivations l - activationCount l),
                       boundDevice = (if truthy (deviceName l) then deviceName l else None),
                       errorCode = Some (if swappable then DEVICE_MISMATCH
                                         else MAX_ACTIVATIONS_REACHED)\<rparr>, w1)))"

text \<open>
  \<^verbatim>\<open>bindDevice\<close>: one update, inside \<^verbatim>\<open>try/catch\<close>. A field whose new value is
  \<^verbatim>\<open>undefined\<close> is left as it was.
\<close>

definition bindDevice ::
  "(nat \<Rightarrow> bool) \<Rightarrow> int \<Rightarrow> string \<Rightarrow> string \<Rightarrow> string option \<Rightarrow> string option \<Rightarrow> string option \<Rightarrow>
   world \<Rightarrow> (error + bool) \<times> world" where
  "bindDevice outage now i fp hw name ipAddr w =
     (case updateLicense outage i
             (\<lambda>l. l\<lparr>browserFingerprint := Some fp,
                     hardwareFingerprint := (case hw of None \<Rightarrow> hardwareFingerprint l | Some h \<Rightarrow> Some h),
                     deviceName := Some (orDefault name ''Unknown Device''),
                     status := ACTIVE,
                     activationCount := activationCount l + 1,
                     lastValidatedAt := Some now,
                     lastValidatedIp := (case ipAddr of None \<Rightarrow> lastValidatedIp l | Some a \<Rightarrow> Some a)\<rparr>)
             w of
        (Inl e, w1) \<Rightarrow> (Inr False, w1)
      | (Inr u, w1) \<Rightarrow> (Inr True, w1))"

record SwapResult =
  swapSucceeded :: bool
  swapLogRef :: "nat option"
  swapError :: "string option"

text \<open>\<^verbatim>\<open>requestDeviceSwap\<close> catches nothing: a failing store call throws to the caller.\<close>

definition requestDeviceSwap ::
  "(nat \<Rightarrow> bool) \<Rightarrow> int \<Rightarrow> string \<Rightarrow> string \<Rightarrow> string option \<Rightarrow> string \<Rightarrow> string option \<Rightarrow>
   world \<Rightarrow> (error + SwapResult) \<times> world" where
  "requestDeviceSwap outage now i newFp newHw ipAddr why w =
     andThen (findLicenseById outage i w)
       (\<lambda>found w1.
          case found of
            None \<Rightarrow>
              (Inr \<lparr>swapSucceeded = False, swapLogRef = None,
                    swapError = Some ''License not found''\<rparr>, w1)
          | Some l \<Rightarrow>
              (case browserFingerprint l of
                 None \<Rightarrow>
                   (Inr \<lparr>swapSucceeded = False, swapLogRef = None,
                         swapError = Some ''No device bound to this license''\<rparr>, w1)
               | Some oldFp \<Rightarrow>
                   if oldFp = [] then
                     (Inr \<lparr>swapSucceeded = False, swapLogRef = None,
                           swapError = Some ''No device bound to this license''\<rparr>, w1)
                   else if activationCount l \<ge> maxActivations l then
                     (Inr \<lparr>swapSucceeded = False, swapLogRef = None,
                           swapError = Some ''Maximum device swaps reached''\<rparr>, w1)
                   else
                     andThen
                       (createDeviceSwapLog outage
                          (\<lambda>n. \<lparr>swapLogId = n, slLicenseId = i, oldBrowserFingerprint = oldFp,
                                 newBrowserFingerprint = newFp, slIpAddress = ipAddr,
                                 slReason = why, approved = True\<rparr>) w1)
                       (\<lambda>swapLog w2.
                          andThen
                            (updateLicense outage i
                               (\<lambda>r. r\<lparr>browserFingerprint := Some newFp,
                                       hardwareFingerprint :=
                                         (case newHw of None \<Rightarrow> hardwareFingerprint r
                                                      | Some h \<Rightarrow> Some h),
                                       activationCount := activationCount r + 1,
                                       lastValidatedAt := Some now,
                                       lastValidatedIp := Some ipAddr\<rparr>) w2)
                            (\<lambda>u w3.
                               (Inr \<lparr>swapSucceeded = True, swapLogRef = Some (swapLogId swapLog),
                                     swapError = None\<rparr>, w3)))))"

section \<open>Requests, environment and responses\<close>

text \<open>
  A payload is a JSON object whose fields are strings, as the routes' payload interfaces
  declare them; a missing field is \<open>None\<close>. A request body is invalid JSON, a value
  that is not an object, or an object: its own string fields, and the values under the
  keys \<^verbatim>\<open>payload\<close>, \<^verbatim>\<open>timestamp\<close> and \<^verbatim>\<open>signature\<close> when it has them.
\<close>

type_synonym payload = "string \<rightharpoonup> string"

datatype jsonValue = JNumber int | JString string | JOther

datatype requestBody =
    InvalidJson
  | NotAnObject
  | Object payload "payload option" "jsonValue option" "jsonValue option"

record request =
  clientIp :: string
  userAgentHeader :: "string option"
  authorization :: "authHeader option"
  ifNoneMatch :: "string option"
  extensionVersionHeader :: "string option"
  jsonBody :: requestBody

text \<open>
  What a handler takes from its process: the clock (one instant for the whole request),
  the two secrets, the library functions of the authenticator, and which store calls
  fail.
\<close>

record env =
  clock :: int
  API_SECRET :: "string option"
  JWT_SECRET :: string
  storeOutage :: "nat \<Rightarrow> bool"
  limiterOutage :: "nat \<Rightarrow> bool"
  jsonStringify :: "payload \<Rightarrow> int \<Rightarrow> string option"
  createHmac :: "string \<Rightarrow> string \<Rightarrow> string"

text \<open>
  A response is an error (HTTP status, the error code or, where the route has no codes,
  its message, and the extra fields of the error) or one of the success bodies, with the
  tokens and the license status they report.
\<close>

datatype details =
    NoDetails
  | RetryAfter int
  | BoundDevice "string option"
  | BannedAt "int option"
  | ExpiresAt "int option"
  | Mismatch string bool int
  | Message "string option"

datatype response =
    ErrorResponse nat string details
  | ActivateSuccess jwt LicenseStatus
  | ValidateSuccess jwt LicenseStatus string
  | SwapSuccess "nat option"
  | ExtensionSuccess jwt jwt
  | ConfigSuccess WebConfig
  | NotModified string

definition rejected :: "response \<Rightarrow> bool" where
  "rejected r = (case r of ErrorResponse code name d \<Rightarrow> True | _ \<Rightarrow> False)"

definition reply :: "response \<Rightarrow> world \<Rightarrow> (error + response) \<times> world" where
  "reply r w = (Inr r, w)"

text \<open>The handler's outer \<^verbatim>\<open>try/catch\<close>: whatever was thrown becomes the given response.\<close>

definition catchAll :: "(error + response) \<times> world \<Rightarrow> response \<Rightarrow> response \<times> world" where
  "catchAll m r = (case m of (Inl e, w) \<Rightarrow> (r, w) | (Inr x, w) \<Rightarrow> (x, w))"

definition reqJson :: "request \<Rightarrow> world \<Rightarrow> (error + requestBody) \<times> world" where
  "reqJson rq w = (case jsonBody rq of InvalidJson \<Rightarrow> (Inl TypeError, w) | b \<Rightarrow> (Inr b, w))"

definition parseSignedRequest :: "requestBody \<Rightarrow> payload SignedRequest option" where
  "parseSignedRequest b =
     (case b of
        Object own (Some p) (Some (JNumber t)) (Some (JString sg)) \<Rightarrow>
          Some \<lparr>payload = p, timestamp = t, signature = sg\<rparr>
      | _ \<Rightarrow> None)"

text \<open>\<^verbatim>\<open>apiSecret && verifyRequest(signedRequest, apiSecret, 60000)\<close>.\<close>

definition signatureOk :: "env \<Rightarrow> payload SignedRequest \<Rightarrow> world \<Rightarrow> (error + bool) \<times> world" where
  "signatureOk e sr w =
     (case API_SECRET e of
        None \<Rightarrow> (Inr False, w)
      | Some secret \<Rightarrow>
          if secret = [] then (Inr False, w)
          else (verifyRequest (jsonStringify e) (createHmac e) (clock e) sr secret 60000, w))"

definition RATE_LIMITS_IP :: RateLimitConfig where
  "RATE_LIMITS_IP = \<lparr>limit = 100, windowMs = 60 * 1000\<rparr>"

definition RATE_LIMITS_LICENSE :: RateLimitConfig where
  "RATE_LIMITS_LICENSE = \<lparr>limit = 30, windowMs = 60 * 1000\<rparr>"

definition RATE_LIMITS_DEVICE_SWAP :: RateLimitConfig where
  "RATE_LIMITS_DEVICE_SWAP = \<lparr>limit = 1, windowMs = 24 * 60 * 60 * 1000\<rparr>"

definition limited ::
  "env \<Rightarrow> string \<Rightarrow> RateLimitConfig \<Rightarrow> string \<Rightarrow> world \<Rightarrow> (error + RateLimitResult) \<times> world" where
  "limited e identifier config scope w =
     (case checkRateLimit (limiterOutage e) (clock e) (clock e) identifier config scope (limiter w) of
        (r, l) \<Rightarrow> (r, w\<lparr>limiter := l\<rparr>))"

definition checkIpRateLimit :: "env \<Rightarrow> string \<Rightarrow> world \<Rightarrow> (error + RateLimitResult) \<times> world" where
  "checkIpRateLimit e ipAddr = limited e ipAddr RATE_LIMITS_IP ''ip''"

definition checkLicenseRateLimit :: "env \<Rightarrow> string \<Rightarrow> world \<Rightarrow> (error + RateLimitResult) \<times> world" where
  "checkLicenseRateLimit e k = limited e k RATE_LIMITS_LICENSE ''license''"

definition checkDeviceSwapRateLimit :: "env \<Rightarrow> string \<Rightarrow> world \<Rightarrow> (error + RateLimitResult) \<times> world" where
  "checkDeviceSwapRateLimit e k = limited e k RATE_LIMITS_DEVICE_SWAP ''swap''"

text \<open>\<^verbatim>\<open>Math.ceil((reset - Date.now()) / 1000)\<close>.\<close>

definition retryAfter :: "env \<Rightarrow> RateLimitResult \<Rightarrow> int" where
  "retryAfter e r = - ((clock e - reset r) div 1000)"

definition accessTokenFor :: "env \<Rightarrow> License \<Rightarrow> jwt" where
  "accessTokenFor e l =
     signAccessToken (JWT_SECRET e) (clock e)
       \<lparr>licenseId = licId l, userId = licUserId l, email = Some (ownerEmail l)\<rparr>"

definition expiryPassed :: "env \<Rightarrow> License \<Rightarrow> bool" where
  "expiryPassed e l = (case expiresAt l of None \<Rightarrow> False | Some t \<Rightarrow> t < clock e)"

section \<open>Activation route (api/licenses/activate)\<close>

text \<open>The schema: both strings at least ten characters long, the other two optional.\<close>

definition ActivatePayloadSchema :: "payload \<Rightarrow> (string \<times> string) option" where
  "ActivatePayloadSchema p =
     (case (p ''licenseKey'', p ''browserFingerprint'') of
        (Some k, Some fp) \<Rightarrow> if 10 \<le> length k \<and> 10 \<le> length fp then Some (k, fp) else None
      | _ \<Rightarrow> None)"

text \<open>
  \<open>activateLicense\<close> is the handler from step 5 on, once the license row was found;
  \<open>activatePOST\<close> is the whole handler.
\<close>

definition activateLicense ::
  "env \<Rightarrow> request \<Rightarrow> payload \<Rightarrow> string \<Rightarrow> License \<Rightarrow> world \<Rightarrow> (error + response) \<times> world" where
  "activateLicense e rq p fp l w =
     (if isBanned l then reply (ErrorResponse 403 ''LICENSE_BANNED'' NoDetails) w
      else if status l = ACTIVE then
        (if truthy (browserFingerprint l) \<and> browserFingerprint l \<noteq> Some fp
         then reply (ErrorResponse 403 ''ALREADY_ACTIVATED'' (BoundDevice (deviceName l))) w
         else reply (ActivateSuccess (accessTokenFor e l) (status l)) w)
      else if status l \<noteq> INACTIVE then reply (ErrorResponse 400 ''INVALID_STATUS'' NoDetails) w
      else if activationCount l \<ge> maxActivations l
      then reply (ErrorResponse 403 ''MAX_ACTIVATIONS'' NoDetails) w
      else
        andThen
          (bindDevice (storeOutage e) (clock e) (licId l) fp (p ''hardwareFingerprint'')
             (Some (orDefault (p ''deviceName'') ''Chrome Extension'')) (Some (clientIp rq)) w)
          (\<lambda>bound w1.
             if \<not> bound then reply (ErrorResponse 500 ''ACTIVATION_FAILED'' NoDetails) w1
             else
               andThen
                 (createValidationLog (storeOutage e)
                    \<lparr>vlLicenseId = licId l, vlBrowserFingerprint = fp,
                     vlHardwareFingerprint = p ''hardwareFingerprint'',
                     vlIpAddress = clientIp rq,
                     vlUserAgent = orDefault (userAgentHeader rq) ''Chrome Extension'',
                     vlResult = ''SUCCESS'', vlFailureReason = Some ''First activation'',
                     vlExtensionVersion = ''1.0.0''\<rparr> w1)
                 (\<lambda>u w2. reply (ActivateSuccess (accessTokenFor e l) ACTIVE) w2)))"

definition activatePOST :: "env \<Rightarrow> request \<Rightarrow> world \<Rightarrow> response \<times> world" where
  "activatePOST e rq w =
     catchAll
       (andThen (checkIpRateLimit e (clientIp rq) w)
          (\<lambda>rateLimit w1.
             if \<not> success rateLimit then reply (ErrorResponse 429 ''RATE_LIMIT'' NoDetails) w1
             else
               andThen (reqJson rq w1)
                 (\<lambda>body w2.
                    case parseSignedRequest body of
                      None \<Rightarrow> reply (ErrorResponse 400 ''INVALID_REQUEST'' NoDetails) w2
                    | Some signedRequest \<Rightarrow>
                        andThen (signatureOk e signedRequest w2)
                          (\<lambda>ok w3.
                             if \<not> ok then reply (ErrorResponse 401 ''INVALID_SIGNATURE'' NoDetails) w3
                             else
                               (case ActivatePayloadSchema (payload signedRequest) of
                                  None \<Rightarrow> reply (ErrorResponse 400 ''INVALID_PAYLOAD'' NoDetails) w3
                                | Some (k, fp) \<Rightarrow>
                                    andThen (findLicenseByKey (storeOutage e) k w3)
                                      (\<lambda>found w4.
                                         case found of
                                           None \<Rightarrow>
                                             reply (ErrorResponse 404 ''INVALID_LICENSE'' NoDetails) w4
                                         | Some l \<Rightarrow>
                                             activateLicense e rq (payload signedRequest) fp l w4))))))
       (ErrorResponse 500 ''INTERNAL_ERROR'' NoDetails)"

section \<open>Validation route (api/licenses/validate)\<close>

text \<open>\<^verbatim>\<open>logValidation\<close> writes nothing without a license id and swallows what the store throws.\<close>

definition logValidation ::
  "env \<Rightarrow> string option \<Rightarrow> string \<Rightarrow> payload \<Rightarrow> string \<Rightarrow> string option \<Rightarrow> world \<Rightarrow>
   (error + unit) \<times> world" where
  "logValidation e i outcome p ipAddr note w =
     (if \<not> truthy i then (Inr (), w)
      else
        (case createValidationLog (storeOutage e)
                \<lparr>vlLicenseId = orDefault i [],
                 vlBrowserFingerprint = orDefault (p ''browserFingerprint'') [],
                 vlHardwareFingerprint = p ''hardwareFingerprint'',
                 vlIpAddress = ipAddr, vlUserAgent = ''Chrome Extension'',
                 vlResult = outcome, vlFailureReason = note,
                 vlExtensionVersion = orDefault (p ''extensionVersion'') []\<rparr> w of
           (Inl x, w1) \<Rightarrow> (Inr (), w1)
         | (Inr u, w1) \<Rightarrow> (Inr (), w1)))"

text \<open>
  Step 7 of the handler, the device binding check and its three branches. It returns the
  response of a branch that ends the request, or nothing when the handler goes on to
  issue the token.
\<close>

definition deviceBindingStep ::
  "env \<Rightarrow> request \<Rightarrow> payload \<Rightarrow> string \<Rightarrow> string \<Rightarrow> License \<Rightarrow> world \<Rightarrow>
   (error + response option) \<times> world" where
  "deviceBindingStep e rq p fp ver l w =
     andThen (checkDeviceBinding (storeOutage e) (licId l) fp w)
       (\<lambda>deviceCheck w1.
          if isFirstActivation deviceCheck then
            andThen
              (bindDevice (storeOutage e) (clock e) (licId l) fp (p ''hardwareFingerprint'')
                 (Some (orDefault (p ''deviceName'') (''Chrome Extension v'' @ ver)))
                 (Some (clientIp rq)) w1)
              (\<lambda>bound w2.
                 if \<not> bound
                 then (Inr (Some (ErrorResponse 500 ''ACTIVATION_FAILED'' NoDetails)), w2)
                 else
                   andThen
                     (logValidation e (Some (licId l)) ''SUCCESS'' p (clientIp rq)
                        (Some ''First activation'') w2)
                     (\<lambda>u w3. (Inr None, w3)))
          else if \<not> isValid deviceCheck then
            andThen
              (logValidation e (Some (licId l)) ''FAILED_DEVICE_MISMATCH'' p (clientIp rq) None w1)
              (\<lambda>u w2.
                 (Inr (Some (ErrorResponse 403 ''DEVICE_MISMATCH''
                               (Mismatch (orDefault (boundDevice deviceCheck) ''Unknown Device'')
                                  (canSwap deviceCheck) (swapsRemaining deviceCheck)))), w2))
          else
            andThen
              (updateLicense (storeOutage e) (licId l)
                 (\<lambda>r. r\<lparr>lastValidatedAt := Some (clock e),
                         lastValidatedIp := Some (clientIp rq)\<rparr>) w1)
              (\<lambda>u w2.
                 andThen (logValidation e (Some (licId l)) ''SUCCESS'' p (clientIp rq) None w2)
                   (\<lambda>u w3. (Inr None, w3))))"

text \<open>
  \<open>validateLicense\<close> is the handler from step 6 on, once the license row was found. The
  success body reports the status read at step 5.
\<close>

definition validateLicense ::
  "env \<Rightarrow> request \<Rightarrow> payload \<Rightarrow> string \<Rightarrow> string \<Rightarrow> License \<Rightarrow> world \<Rightarrow>
   (error + response) \<times> world" where
  "validateLicense e rq p fp ver l w =
     (if isBanned l then
        andThen (logValidation e (Some (licId l)) ''FAILED_BANNED'' p (clientIp rq) None w)
          (\<lambda>u w1. reply (ErrorResponse 403 ''LICENSE_BANNED'' (BannedAt (bannedAt l))) w1)
      else if status l = EXPIRED \<or> expiryPassed e l then
        andThen (logValidation e (Some (licId l)) ''FAILED_EXPIRED'' p (clientIp rq) None w)
          (\<lambda>u w1. reply (ErrorResponse 403 ''LICENSE_EXPIRED'' (ExpiresAt (expiresAt l))) w1)
      else
        andThen (deviceBindingStep e rq p fp ver l w)
          (\<lambda>early w1.
             case early of
               Some r \<Rightarrow> reply r w1
             | None \<Rightarrow>
                 andThen (findActiveConfig (storeOutage e) w1)
                   (\<lambda>config w2.
                      reply (ValidateSuccess (accessTokenFor e l) (status l)
                               (case config of None \<Rightarrow> ''1.0.0''
                                | Some c \<Rightarrow> orDefault (Some (version c)) ''1.0.0'')) w2)))"

definition validatePOST :: "env \<Rightarrow> request \<Rightarrow> world \<Rightarrow> response \<times> world" where
  "validatePOST e rq w =
     catchAll
       (andThen (checkIpRateLimit e (clientIp rq) w)
          (\<lambda>ipLimit w1.
             if \<not> success ipLimit
             then reply (ErrorResponse 429 ''RATE_LIMIT_EXCEEDED'' (RetryAfter (retryAfter e ipLimit))) w1
             else
               andThen (reqJson rq w1)
                 (\<lambda>body w2.
                    case parseSignedRequest body of
                      None \<Rightarrow> reply (ErrorResponse 400 ''INVALID_REQUEST'' NoDetails) w2
                    | Some signedRequest \<Rightarrow>
                        if \<not> truthy (API_SECRET e)
                        then reply (ErrorResponse 500 ''SERVER_ERROR'' NoDetails) w2
                        else
                          andThen (signatureOk e signedRequest w2)
                            (\<lambda>isValidSignature w3.
                               if \<not> isValidSignature
                               then reply (ErrorResponse 401 ''INVALID_SIGNATURE'' NoDetails) w3
                               else
                                 (let p = payload signedRequest in
                                  case (p ''licenseKey'', p ''browserFingerprint'',
                                        p ''extensionVersion'') of
                                    (Some k, Some fp, Some ver) \<Rightarrow>
                                      if k = [] \<or> fp = [] \<or> ver = []
                                      then reply (ErrorResponse 400 ''INVALID_PAYLOAD'' NoDetails) w3
                                      else
                                        andThen (checkLicenseRateLimit e k w3)
                                          (\<lambda>licenseLimit w4.
                                             if \<not> success licenseLimit
                                             then reply (ErrorResponse 429 ''LICENSE_RATE_LIMIT''
                                                           NoDetails) w4
                                             else
                                               andThen (findLicenseByKey (storeOutage e) k w4)
                                                 (\<lambda>found w5.
                                                    case found of
                                                      None \<Rightarrow>
                                                        andThen
                                                          (logValidation e None ''FAILED_INVALID_KEY''
                                                             p (clientIp rq) None w5)
                                                          (\<lambda>u w6.
                                                             reply (ErrorResponse 404 ''INVALID_LICENSE''
                                                                      NoDetails) w6)
                                                    | Some l \<Rightarrow> validateLicense e rq p fp ver l w5))
                                  | _ \<Rightarrow> reply (ErrorResponse 400 ''INVALID_PAYLOAD'' NoDetails) w3)))))
       (ErrorResponse 500 ''INTERNAL_ERROR'' NoDetails)"

section \<open>Device swap route (api/licenses/device-swap)\<close>

definition swapPOST :: "env \<Rightarrow> request \<Rightarrow> world \<Rightarrow> response \<times> world" where
  "swapPOST e rq w =
     catchAll
       (andThen (reqJson rq w)
          (\<lambda>body w1.
             case parseSignedRequest body of
               None \<Rightarrow> reply (ErrorResponse 400 ''INVALID_REQUEST'' NoDetails) w1
             | Some signedRequest \<Rightarrow>
                 andThen (signatureOk e signedRequest w1)
                   (\<lambda>ok w2.
                      if \<not> ok then reply (ErrorResponse 401 ''INVALID_SIGNATURE'' NoDetails) w2
                      else
                        (let p = payload signedRequest in
                         case (p ''licenseKey'', p ''newBrowserFingerprint'') of
                           (Some k, Some newFp) \<Rightarrow>
                             if k = [] \<or> newFp = []
                             then reply (ErrorResponse 400 ''INVALID_PAYLOAD'' NoDetails) w2
                             else
                               andThen (checkDeviceSwapRateLimit e k w2)
                                 (\<lambda>rateLimit w3.
                                    if \<not> success rateLimit
                                    then reply (ErrorResponse 429 ''DEVICE_SWAP_RATE_LIMIT''
                                                  (RetryAfter (retryAfter e rateLimit))) w3
                                    else
                                      andThen (findLicenseByKey (storeOutage e) k w3)
                                        (\<lambda>found w4.
                                           case found of
                                             None \<Rightarrow>
                                               reply (ErrorResponse 404 ''INVALID_LICENSE'' NoDetails) w4
                                           | Some l \<Rightarrow>
                                               if isBanned l \<or> status l \<noteq> ACTIVE
                                               then reply (ErrorResponse 403 ''LICENSE_INACTIVE''
                                                             NoDetails) w4
                                               else
                                                 andThen
                                                   (requestDeviceSwap (storeOutage e) (clock e) (licId l)
                                                      newFp (p ''newHardwareFingerprint'')
                                                      (clientIp rq) (p ''reason'') w4)
                                                   (\<lambda>result w5.
                                                      if \<not> swapSucceeded result
                                                      then reply (ErrorResponse 400 ''SWAP_FAILED''
                                                                    (Message (swapError result))) w5
                                                      else reply (SwapSuccess (swapLogRef result)) w5)))
                         | _ \<Rightarrow> reply (ErrorResponse 400 ''INVALID_PAYLOAD'' NoDetails) w2))))
       (ErrorResponse 500 ''INTERNAL_ERROR'' NoDetails)"

section \<open>Configuration delivery route (api/config)\<close>

definition configGET :: "env \<Rightarrow> request \<Rightarrow> world \<Rightarrow> response \<times> world" where
  "configGET e rq w =
     catchAll
       (case extractBearerToken (authorization rq) of
          None \<Rightarrow> reply (ErrorResponse 401 ''Missing or invalid authorization header'' NoDetails) w
        | Some t \<Rightarrow>
            (case verifyJWT (JWT_SECRET e) (clock e) t of
               None \<Rightarrow> reply (ErrorResponse 401 ''Invalid token'' NoDetails) w
             | Some decoded \<Rightarrow>
                 if licenseId decoded = []
                 then reply (ErrorResponse 401 ''Invalid token'' NoDetails) w
                 else
                   andThen (checkLicenseRateLimit e (licenseId decoded) w)
                     (\<lambda>lim w1.
                        if \<not> success lim
                        then reply (ErrorResponse 429 ''Rate limit exceeded'' NoDetails) w1
                        else
                          andThen (findLicenseById (storeOutage e) (licenseId decoded) w1)
                            (\<lambda>found w2.
                               case found of
                                 None \<Rightarrow>
                                   reply (ErrorResponse 403 ''License is no longer valid'' NoDetails) w2
                               | Some l \<Rightarrow>
                                   if isBanned l \<or> status l \<noteq> ACTIVE
                                   then reply (ErrorResponse 403 ''License is no longer valid''
                                                 NoDetails) w2
                                   else
                                     andThen (findActiveConfig (storeOutage e) w2)
                                       (\<lambda>config w3.
                                          case config of
                                            None \<Rightarrow>
                                              reply (ErrorResponse 404
                                                       ''No active configuration found'' NoDetails) w3
                                          | Some c \<Rightarrow>
                                              (let serverETag = [CHR 0x22] @ checksum c @ [CHR 0x22] in
                                               if ifNoneMatch rq = Some serverETag
                                               then reply (NotModified serverETag) w3
                                               else
                                                 andThen
                                                   (createConfigDeliveryLog (storeOutage e)
                                                      \<lparr>cdLicenseId = licId l,
                                                       cdConfigVersion = version c,
                                                       cdExtensionVersion =
                                                         orDefault (extensionVersionHeader rq)
                                                           ''unknown''\<rparr> w3)
                                                   (\<lambda>u w4. reply (ConfigSuccess c) w4)))))))
       (ErrorResponse 500 ''Internal server error'' NoDetails)"

section \<open>Extension activation route (api/extension/activate)\<close>

text \<open>The schema reads the body's own fields; this route takes no signed envelope.\<close>

definition ActivateSchema :: "requestBody \<Rightarrow> (string \<times> string \<times> string option) option" where
  "ActivateSchema b =
     (case b of
        Object own p t sg \<Rightarrow>
          (case (own ''licenseKey'', own ''browserFingerprint'') of
             (Some k, Some fp) \<Rightarrow>
               if 10 \<le> length k \<and> 5 \<le> length fp
               then Some (k, fp, own ''hardwareFingerprint'') else None
           | _ \<Rightarrow> None)
      | _ \<Rightarrow> None)"

definition maxDevicesOf :: "License \<Rightarrow> nat" where
  "maxDevicesOf l = (if planType l = LIFETIME then 3 else if planType l = ANNUAL then 2 else 1)"

text \<open>\<open>extensionActivateLicense\<close> is the handler from step 4 on, once the row was found.\<close>

definition extensionActivateLicense ::
  "env \<Rightarrow> request \<Rightarrow> string \<Rightarrow> string option \<Rightarrow> License \<Rightarrow> world \<Rightarrow> (error + response) \<times> world" where
  "extensionActivateLicense e rq fp hw l w =
     (if isBanned l then reply (ErrorResponse 403 ''This license has been banned.'' NoDetails) w
      else if status l = EXPIRED
      then reply (ErrorResponse 403 ''This license has expired.'' NoDetails) w
      else if expiryPassed e l then
        andThen (updateLicense (storeOutage e) (licId l) (\<lambda>r. r\<lparr>status := EXPIRED\<rparr>) w)
          (\<lambda>u w1. reply (ErrorResponse 403 ''This license has expired.'' NoDetails) w1)
      else
        andThen (groupValidationLogs (storeOutage e) (licId l) w)
          (\<lambda>deviceCount w1.
             let isNewDevice = \<not> List.member deviceCount fp in
             if isNewDevice \<and> maxDevicesOf l \<le> length deviceCount
             then reply (ErrorResponse 403 ''Device limit reached'' NoDetails) w1
             else
               andThen
                 (if status l = INACTIVE then
                    updateLicense (storeOutage e) (licId l)
                      (\<lambda>r. r\<lparr>status := ACTIVE, browserFingerprint := Some fp,
                              hardwareFingerprint := (if truthy hw then hw else None)\<rparr>) w1
                  else (Inr (), w1))
                 (\<lambda>u w2.
                    andThen
                      (createValidationLog (storeOutage e)
                         \<lparr>vlLicenseId = licId l, vlBrowserFingerprint = fp,
                          vlHardwareFingerprint = Some (orDefault hw ''N/A''),
                          vlIpAddress = clientIp rq,
                          vlUserAgent = orDefault (userAgentHeader rq) ''Chrome Extension'',
                          vlResult = ''SUCCESS'', vlFailureReason = None,
                          vlExtensionVersion = ''1.0.0''\<rparr> w2)
                      (\<lambda>u w3.
                         reply (ExtensionSuccess
                                  (signAccessToken (JWT_SECRET e) (clock e)
                                     \<lparr>licenseId = licId l, userId = licUserId l, email = None\<rparr>)
                                  (signRefreshToken (JWT_SECRET e) (clock e)
                                     \<lparr>licenseId = licId l, userId = licUserId l, email = None\<rparr>))
                           w3))))"

definition extensionActivatePOST :: "env \<Rightarrow> request \<Rightarrow> world \<Rightarrow> response \<times> world" where
  "extensionActivatePOST e rq w =
     catchAll
       (andThen (checkIpRateLimit e (clientIp rq) w)
          (\<lambda>rateLimit w1.
             if \<not> success rateLimit
             then reply (ErrorResponse 429 ''Too many requests. Please try again later.'' NoDetails) w1
             else
               andThen (reqJson rq w1)
                 (\<lambda>body w2.
                    case ActivateSchema body of
                      None \<Rightarrow>
                        reply (ErrorResponse 400 ''Invalid request. Please check license key format.''
                                 NoDetails) w2
                    | Some (k, fp, hw) \<Rightarrow>
                        andThen (findLicenseByKey (storeOutage e) k w2)
                          (\<lambda>found w3.
                             case found of
                               None \<Rightarrow>
                                 reply (ErrorResponse 404
                                          ''License not found. Please check your license key.''
                                          NoDetails) w3
                             | Some l \<Rightarrow> extensionActivateLicense e rq fp hw l w3))))
       (ErrorResponse 500 ''Server error. Please try again.'' NoDetails)"

section \<open>Notions used to state the properties\<close>

text \<open>
  The license key a request names in its signed payload or in its plain body, and the
  license id its bearer token carries.
\<close>

definition signedLicenseKey :: "request \<Rightarrow> string option" where
  "signedLicenseKey rq =
     (case parseSignedRequest (jsonBody rq) of None \<Rightarrow> None | Some sr \<Rightarrow> payload sr ''licenseKey'')"

definition plainLicenseKey :: "request \<Rightarrow> string option" where
  "plainLicenseKey rq =
     (case ActivateSchema (jsonBody rq) of None \<Rightarrow> None | Some (k, fp, hw) \<Rightarrow> Some k)"

definition bearerLicenseId :: "request \<Rightarrow> string option" where
  "bearerLicenseId rq =
     (case extractBearerToken (authorization rq) of
        Some (Signed tok) \<Rightarrow> Some (licenseId (tokClaims tok))
      | _ \<Rightarrow> None)"

text \<open>
  A concrete environment, license, store and request, on which the handlers are run: a
  monthly license bound to device A that has used its one activation, a healthy store,
  an empty limiter, and a request whose envelope verifies.
\<close>

definition demoEnv :: env where
  "demoEnv = \<lparr>clock = 2000, API_SECRET = Some ''api-secret'', JWT_SECRET = ''jwt-secret'',
              storeOutage = (\<lambda>n. False), limiterOutage = (\<lambda>n. False),
              jsonStringify = (\<lambda>p t. Some (orDefault (p ''licenseKey'') [])),
              createHmac = (\<lambda>k m. ''c0ffee'')\<rparr>"

definition demoLicense :: License where
  "demoLicense =
     \<lparr>licId = ''lic_1'', licKey = ''SH-0001-0002-0003-0004'', licUserId = ''usr_1'',
      ownerEmail = ''a@b.c'', planType = MONTHLY, status = ACTIVE, isBanned = False,
      bannedReason = None, bannedAt = None, browserFingerprint = Some ''fp-device-A'',
      hardwareFingerprint = None, deviceName = Some ''Laptop'', activationCount = 1,
      maxActivations = 1, expiresAt = None, lastValidatedAt = None, lastValidatedIp = None\<rparr>"

definition demoWorld :: "License \<Rightarrow> world" where
  "demoWorld l =
     \<lparr>licenses = [l], validationLogs = [], deviceSwapLogs = [], configDeliveryLogs = [],
      activeConfig = None, dbCalls = 0, limiter = emptyLimiter\<rparr>"

definition demoPayload :: "string \<Rightarrow> payload" where
  "demoPayload fp =
     [''licenseKey'' \<mapsto> ''SH-0001-0002-0003-0004'', ''browserFingerprint'' \<mapsto> fp,
      ''newBrowserFingerprint'' \<mapsto> fp, ''extensionVersion'' \<mapsto> ''1.0.0'']"

definition demoRequest :: "string \<Rightarrow> request" where
  "demoRequest fp =
     \<lparr>clientIp = ''10.0.0.7'', userAgentHeader = None,
      authorization = Some (Bearer (signAccessToken ''jwt-secret'' 0
                        \<lparr>licenseId = ''lic_1'', userId = ''usr_1'', email = None\<rparr>)),
      ifNoneMatch = None, extensionVersionHeader = None,
      jsonBody = Object (demoPayload fp) (Some (demoPayload fp)) (Some (JNumber 2000))
                   (Some (JString ''c0ffee''))\<rparr>"

section \<open>Properties\<close>

text \<open>The definitions to unfold when a handler is run on the concrete request.\<close>

lemmas demo_defs =
  demoEnv_def demoLicense_def demoWorld_def demoPayload_def demoRequest_def emptyLimiter_def
  validatePOST_def validateLicense_def deviceBindingStep_def logValidation_def
  activatePOST_def activateLicense_def swapPOST_def configGET_def
  extensionActivatePOST_def extensionActivateLicense_def ActivateSchema_def maxDevicesOf_def
  ActivatePayloadSchema_def checkIpRateLimit_def checkLicenseRateLimit_def
  checkDeviceSwapRateLimit_def limited_def RATE_LIMITS_IP_def RATE_LIMITS_LICENSE_def
  RATE_LIMITS_DEVICE_SWAP_def checkRateLimit_def loadEntry_def openWindow_def
  getFromSupabase_def saveToSupabase_def rateLimitFindUnique_def rateLimitUpsert_def
  andThen_def catchAll_def reply_def reqJson_def parseSignedRequest_def signatureOk_def
  verifyRequest_def timingSafeEqual_def hexVal_def truthy_def orDefault_def
  findLicenseByKey_def findLicenseById_def updateLicense_def createValidationLog_def
  createDeviceSwapLog_def findActiveConfig_def createConfigDeliveryLog_def
  groupValidationLogs_def storeCall_def checkDeviceBinding_def bindDevice_def
  requestDeviceSwap_def expiryPassed_def accessTokenFor_def retryAfter_def
  extractBearerToken_def verifyJWT_def jwtVerify_def signAccessToken_def signRefreshToken_def
  epochSeconds_def JWT_ISSUER_def JWT_AUDIENCE_def Let_def

subsection \<open>Generated license keys\<close>








subsection \<open>Signed requests\<close>

text \<open>
  C4. An envelope that \<^verbatim>\<open>signRequest\<close> produced verifies under the same secret at the
  instant it was signed, for every payload, every secret and every replay window
  \<open>maxAge\<close> that is not negative; and whenever the envelope's timestamp lies in the
  future or more than \<open>maxAge\<close> milliseconds in the past, \<^verbatim>\<open>verifyRequest\<close> returns false
  before it looks at the signature, whatever the signature is.
\<close>

theorem sign_then_verify:
  "(0 \<le> maxAge \<and> signRequest stringify hmac now p secret = Inr env
      \<longrightarrow> verifyRequest stringify hmac now env secret maxAge = Inr True) \<and>
   (now < timestamp request \<or> maxAge < now - timestamp request
      \<longrightarrow> verifyRequest stringify hmac now request secret maxAge = Inr False)"
  by (auto simp: signRequest_def verifyRequest_def timingSafeEqual_def Let_def
           split: option.splits)

theorem sign_then_verify_witness:
  "((0::int) \<le> 60000 \<and>
    signRequest (\<lambda>p t. Some p) (\<lambda>k m. ''c0ffee'') 1000 ''{}'' ''secret''
      = Inr \<lparr>payload = ''{}'', timestamp = 1000, signature = ''c0ffee''\<rparr>) \<and>
   verifyRequest (\<lambda>p t. Some p) (\<lambda>k m. ''c0ffee'') 1000
      \<lparr>payload = ''{}'', timestamp = 1000, signature = ''c0ffee''\<rparr> ''secret'' 60000 = Inr True \<and>
   ((1000::int) < timestamp \<lparr>payload = ''{}'', timestamp = 1001, signature = ''c0ffee''\<rparr>) \<and>
   verifyRequest (\<lambda>p t. Some p) (\<lambda>k m. ''c0ffee'') 1000
      \<lparr>payload = ''{}'', timestamp = 1001, signature = ''c0ffee''\<rparr> ''secret'' 60000 = Inr False"
  using sign_then_verify [of 60000 "\<lambda>p t. Some p" "\<lambda>k m. ''c0ffee''" 1000 "''{}''" "''secret''"
      "\<lparr>payload = ''{}'', timestamp = 1000, signature = ''c0ffee''\<rparr>"
      "\<lparr>payload = ''{}'', timestamp = 1001, signature = ''c0ffee''\<rparr>"]
  by (simp add: signRequest_def)

subsection \<open>Fixed-window counting\<close>









subsection \<open>Store failures inside the limiter\<close>

text \<open>
  C8. Whatever store calls fail, \<^verbatim>\<open>checkRateLimit\<close> returns a result and throws nothing, and
  the result is the decision read off the in-memory entry: success, remaining and reset are
  those of the cache entry the call leaves for the key. With every store call failing, the
  result is the one a healthy store with an empty table gives.
\<close>

theorem rate_limit_survives_outage:
  "(\<exists>r st' e. checkRateLimit outage now dbNow ident config pfx st = (Inr r, st') \<and>
      rateLimitCache st' (pfx @ '':'' @ ident) = Some e \<and>
      r = \<lparr>success = (count e \<le> limit config), resultLimit = limit config,
           remaining = max 0 (limit config - count e), reset = resetAt e\<rparr>) \<and>
   fst (checkRateLimit (\<lambda>n. True) now dbNow ident config pfx st)
     = fst (checkRateLimit (\<lambda>n. False) now dbNow ident config pfx
              (st\<lparr>rateLimitTable := Map.empty\<rparr>))"
  by (auto simp: checkRateLimit_def loadEntry_def openWindow_def getFromSupabase_def
        rateLimitFindUnique_def Let_def andThen_def
        saveToSupabase_def rateLimitUpsert_def split: option.splits)

subsection \<open>Refresh tokens in the access-token position\<close>




subsection \<open>Banned licenses\<close>

lemma limited_licenses:
  "\<exists>r l. limited e ident config scope w = (r, w\<lparr>limiter := l\<rparr>)"
  by (cases "checkRateLimit (limiterOutage e) (clock e) (clock e) ident config scope (limiter w)")
     (auto simp: limited_def)

lemma logValidation_returns:
  "\<exists>w'. logValidation e i outcome p ipAddr nt w = (Inr (), w')"
  by (simp add: logValidation_def createValidationLog_def storeCall_def Let_def)

lemma andThen_logValidation:
  "andThen (logValidation e i outcome p ipAddr nt w) f
     = f () (snd (logValidation e i outcome p ipAddr nt w))"
  using logValidation_returns [of e i outcome p ipAddr nt w]
  by (auto simp: andThen_def)

lemma reqJson_cases:
  "reqJson rq w = (if jsonBody rq = InvalidJson then (Inl TypeError, w) else (Inr (jsonBody rq), w))"
  by (simp add: reqJson_def split: requestBody.splits)

lemma signatureOk_state: "\<exists>x. signatureOk e sr w = (x, w)"
  by (simp add: signatureOk_def split: option.splits)


lemma validateLicense_banned:
  "isBanned l \<Longrightarrow> validateLicense e rq p fp ver l w =
     (Inr (ErrorResponse 403 ''LICENSE_BANNED'' (BannedAt (bannedAt l))),
      snd (logValidation e (Some (licId l)) ''FAILED_BANNED'' p (clientIp rq) None w))"
  by (simp add: validateLicense_def andThen_logValidation reply_def)

lemma activateLicense_banned:
  "isBanned l \<Longrightarrow> activateLicense e rq p fp l w =
     (Inr (ErrorResponse 403 ''LICENSE_BANNED'' NoDetails), w)"
  by (simp add: activateLicense_def reply_def)

lemma extensionActivateLicense_banned:
  "isBanned l \<Longrightarrow> extensionActivateLicense e rq fp hw l w =
     (Inr (ErrorResponse 403 ''This license has been banned.'' NoDetails), w)"
  by (simp add: extensionActivateLicense_def reply_def)

lemma find_after_limit:
  "findLicenseByKey outage k (w\<lparr>limiter := l\<rparr>) =
     (if outage (dbCalls w) then (Inl DbError, w\<lparr>limiter := l, dbCalls := dbCalls w + 1\<rparr>)
      else (Inr (find (\<lambda>x. licKey x = k) (licenses w)), w\<lparr>limiter := l, dbCalls := dbCalls w + 1\<rparr>))"
  by (simp add: findLicenseByKey_def storeCall_def Let_def)

lemma rejected_catchAll:
  assumes "\<And>r w'. m = (Inr r, w') \<Longrightarrow> rejected r"
  shows "rejected (fst (catchAll m (ErrorResponse c n d)))"
  using assms by (cases m; cases "fst m") (auto simp: catchAll_def rejected_def)

lemma validatePOST_banned:
  assumes "isBanned l" and "signedLicenseKey rq = Some k"
    and "find (\<lambda>x. licKey x = k) (licenses w) = Some l"
  shows "rejected (fst (validatePOST e rq w))"
proof -
  obtain sr where sr: "parseSignedRequest (jsonBody rq) = Some sr" "payload sr ''licenseKey'' = Some k"
    using assms(2) by (auto simp: signedLicenseKey_def split: option.splits)
  obtain r1 l1 where a: "checkIpRateLimit e (clientIp rq) w = (r1, w\<lparr>limiter := l1\<rparr>)"
    unfolding checkIpRateLimit_def using limited_licenses by blast
  obtain r2 l2 where b: "checkLicenseRateLimit e k (w\<lparr>limiter := l1\<rparr>) = (r2, w\<lparr>limiter := l2\<rparr>)"
    unfolding checkLicenseRateLimit_def
    using limited_licenses [of e k RATE_LIMITS_LICENSE "''license''" "w\<lparr>limiter := l1\<rparr>"] by auto
  obtain x where c: "signatureOk e sr (w\<lparr>limiter := l1\<rparr>) = (x, w\<lparr>limiter := l1\<rparr>)"
    using signatureOk_state by blast
  show ?thesis
    unfolding validatePOST_def
    apply (rule rejected_catchAll)
    using assms(3) sr
    by (auto simp: a b c reqJson_cases andThen_def reply_def rejected_def
        find_after_limit andThen_logValidation Let_def validateLicense_banned [OF assms(1)]
        split: option.splits sum.splits if_splits)
qed


lemma activatePOST_banned:
  assumes "isBanned l" and "signedLicenseKey rq = Some k"
    and "find (\<lambda>x. licKey x = k) (licenses w) = Some l"
  shows "rejected (fst (activatePOST e rq w))"
proof -
  obtain sr where sr: "parseSignedRequest (jsonBody rq) = Some sr" "payload sr ''licenseKey'' = Some k"
    using assms(2) by (auto simp: signedLicenseKey_def split: option.splits)
  obtain r1 l1 where a: "checkIpRateLimit e (clientIp rq) w = (r1, w\<lparr>limiter := l1\<rparr>)"
    unfolding checkIpRateLimit_def using limited_licenses by blast
  obtain x where c: "signatureOk e sr (w\<lparr>limiter := l1\<rparr>) = (x, w\<lparr>limiter := l1\<rparr>)"
    using signatureOk_state by blast
  show ?thesis
    unfolding activatePOST_def
    apply (rule rejected_catchAll)
    using assms(3) sr
    by (auto simp: a c reqJson_cases andThen_def reply_def rejected_def ActivatePayloadSchema_def
        find_after_limit Let_def activateLicense_banned [OF assms(1)]
        split: option.splits sum.splits if_splits)
qed

lemma swapPOST_banned:
  assumes "isBanned l" and "signedLicenseKey rq = Some k"
    and "find (\<lambda>x. licKey x = k) (licenses w) = Some l"
  shows "rejected (fst (swapPOST e rq w))"
proof -
  obtain sr where sr: "parseSignedRequest (jsonBody rq) = Some sr" "payload sr ''licenseKey'' = Some k"
    using assms(2) by (auto simp: signedLicenseKey_def split: option.splits)
  obtain x where c: "signatureOk e sr w = (x, w)"
    using signatureOk_state by blast
  obtain r1 l1 where a: "checkDeviceSwapRateLimit e k w = (r1, w\<lparr>limiter := l1\<rparr>)"
    unfolding checkDeviceSwapRateLimit_def using limited_licenses by blast
  show ?thesis
    unfolding swapPOST_def
    apply (rule rejected_catchAll)
    using assms sr
    by (auto simp: a c reqJson_cases andThen_def reply_def rejected_def
        find_after_limit Let_def
        split: option.splits sum.splits if_splits)
qed

lemma extensionActivatePOST_banned:
  assumes "isBanned l" and "plainLicenseKey rq = Some k"
    and "find (\<lambda>x. licKey x = k) (licenses w) = Some l"
  shows "rejected (fst (extensionActivatePOST e rq w))"
proof -
  obtain fp hw where sr: "ActivateSchema (jsonBody rq) = Some (k, fp, hw)"
    using assms(2) by (auto simp: plainLicenseKey_def split: option.splits)
  obtain r1 l1 where a: "checkIpRateLimit e (clientIp rq) w = (r1, w\<lparr>limiter := l1\<rparr>)"
    unfolding checkIpRateLimit_def using limited_licenses by blast
  show ?thesis
    unfolding extensionActivatePOST_def
    apply (rule rejected_catchAll)
    using assms(3) sr
    by (auto simp: a reqJson_cases andThen_def reply_def rejected_def
        find_after_limit Let_def extensionActivateLicense_banned [OF assms(1)]
        split: option.splits sum.splits if_splits)
qed

lemma findById_after_limit:
  "findLicenseById outage i (w\<lparr>limiter := l\<rparr>) =
     (if outage (dbCalls w) then (Inl DbError, w\<lparr>limiter := l, dbCalls := dbCalls w + 1\<rparr>)
      else (Inr (find (\<lambda>x. licId x = i) (licenses w)), w\<lparr>limiter := l, dbCalls := dbCalls w + 1\<rparr>))"
  by (simp add: findLicenseById_def storeCall_def Let_def)

lemma verifyJWT_licenseId:
  "verifyJWT secret now (Signed tok) = Some decoded \<Longrightarrow> licenseId decoded = licenseId (tokClaims tok)"
  by (auto simp: verifyJWT_def jwtVerify_def split: if_splits)

lemma configGET_banned:
  assumes "isBanned l" and "bearerLicenseId rq = Some i"
    and "find (\<lambda>x. licId x = i) (licenses w) = Some l"
  shows "rejected (fst (configGET e rq w))"
proof -
  obtain tok where t: "extractBearerToken (authorization rq) = Some (Signed tok)"
      "licenseId (tokClaims tok) = i"
    using assms(2) by (auto simp: bearerLicenseId_def split: option.splits jwt.splits)
  obtain r1 l1 where a: "checkLicenseRateLimit e i w = (r1, w\<lparr>limiter := l1\<rparr>)"
    unfolding checkLicenseRateLimit_def using limited_licenses by blast
  show ?thesis
    unfolding configGET_def
    apply (rule rejected_catchAll)
    using assms t verifyJWT_licenseId [of "JWT_SECRET e" "clock e" tok]
    by (auto simp: a andThen_def reply_def rejected_def
        findById_after_limit Let_def
        split: option.splits sum.splits if_splits)
qed

text \<open>
  C3. A banned license is rejected by every protected route, whatever fingerprint the
  request supplies and whatever the license's status and expiry are: the validation,
  activation and device swap routes for the license the signed payload names, the
  extension activation route for the license the body names, and configuration delivery
  for the license of the bearer token. Nothing is assumed of the rest of the request, of
  the limiter or of the store's failures.
\<close>

theorem banned_license_rejected:
  assumes "isBanned l"
  shows "(signedLicenseKey rq = Some k \<and> find (\<lambda>x. licKey x = k) (licenses w) = Some l \<longrightarrow>
            rejected (fst (validatePOST e rq w)) \<and>
            rejected (fst (activatePOST e rq w)) \<and>
            rejected (fst (swapPOST e rq w))) \<and>
         (plainLicenseKey rq = Some k \<and> find (\<lambda>x. licKey x = k) (licenses w) = Some l \<longrightarrow>
            rejected (fst (extensionActivatePOST e rq w))) \<and>
         (bearerLicenseId rq = Some i \<and> find (\<lambda>x. licId x = i) (licenses w) = Some l \<longrightarrow>
            rejected (fst (configGET e rq w)))"
  using assms
  by (auto intro: validatePOST_banned activatePOST_banned swapPOST_banned
        extensionActivatePOST_banned configGET_banned)

theorem banned_license_rejected_witness:
  "isBanned (demoLicense\<lparr>isBanned := True\<rparr>) \<and>
   signedLicenseKey (demoRequest ''fp-device-A'') = Some ''SH-0001-0002-0003-0004'' \<and>
   plainLicenseKey (demoRequest ''fp-device-A'') = Some ''SH-0001-0002-0003-0004'' \<and>
   bearerLicenseId (demoRequest ''fp-device-A'') = Some ''lic_1'' \<and>
   find (\<lambda>x. licKey x = ''SH-0001-0002-0003-0004'')
     (licenses (demoWorld (demoLicense\<lparr>isBanned := True\<rparr>))) = Some (demoLicense\<lparr>isBanned := True\<rparr>) \<and>
   find (\<lambda>x. licId x = ''lic_1'')
     (licenses (demoWorld (demoLicense\<lparr>isBanned := True\<rparr>))) = Some (demoLicense\<lparr>isBanned := True\<rparr>) \<and>
   rejected (fst (validatePOST demoEnv (demoRequest ''fp-device-A'')
                    (demoWorld (demoLicense\<lparr>isBanned := True\<rparr>)))) \<and>
   rejected (fst (activatePOST demoEnv (demoRequest ''fp-device-A'')
                    (demoWorld (demoLicense\<lparr>isBanned := True\<rparr>)))) \<and>
   rejected (fst (swapPOST demoEnv (demoRequest ''fp-device-A'')
                    (demoWorld (demoLicense\<lparr>isBanned := True\<rparr>)))) \<and>
   rejected (fst (extensionActivatePOST demoEnv (demoRequest ''fp-device-A'')
                    (demoWorld (demoLicense\<lparr>isBanned := True\<rparr>)))) \<and>
   rejected (fst (configGET demoEnv (demoRequest ''fp-device-A'')
                    (demoWorld (demoLicense\<lparr>isBanned := True\<rparr>))))"
proof -
  have h: "isBanned (demoLicense\<lparr>isBanned := True\<rparr>)" by simp
  have k: "signedLicenseKey (demoRequest ''fp-device-A'') = Some ''SH-0001-0002-0003-0004''"
    "plainLicenseKey (demoRequest ''fp-device-A'') = Some ''SH-0001-0002-0003-0004''"
    "bearerLicenseId (demoRequest ''fp-device-A'') = Some ''lic_1''"
    by (simp_all add: signedLicenseKey_def plainLicenseKey_def bearerLicenseId_def
          parseSignedRequest_def ActivateSchema_def extractBearerToken_def signAccessToken_def
          demoRequest_def demoPayload_def)
  have f: "find (\<lambda>x. licKey x = ''SH-0001-0002-0003-0004'')
             (licenses (demoWorld (demoLicense\<lparr>isBanned := True\<rparr>)))
           = Some (demoLicense\<lparr>isBanned := True\<rparr>)"
    "find (\<lambda>x. licId x = ''lic_1'') (licenses (demoWorld (demoLicense\<lparr>isBanned := True\<rparr>)))
           = Some (demoLicense\<lparr>isBanned := True\<rparr>)"
    by (simp_all add: demoWorld_def demoLicense_def)
  from banned_license_rejected [OF h, of "demoRequest ''fp-device-A''" "''SH-0001-0002-0003-0004''"
      "demoWorld (demoLicense\<lparr>isBanned := True\<rparr>)" demoEnv "''lic_1''"]
  show ?thesis using h k f by simp
qed

subsection \<open>Activating an active license again from its device\<close>



subsection \<open>The activation quota\<close>

lemma logValidation_table:
  "licenses (snd (logValidation e i outcome p ipAddr nt w)) = licenses w"
  by (simp add: logValidation_def createValidationLog_def storeCall_def Let_def)

text \<open>
  The validation route has no quota check before it binds. On a license with no device
  bound that has already used its only activation, it takes the request for a first
  activation and binds the device: the count becomes 2 with a maximum of 1. The
  activation route refuses the same request with \<open>MAX_ACTIVATIONS\<close> at its step 6.
\<close>

lemma validate_first_activation_ignores_quota:
  "map (\<lambda>l. (activationCount l, maxActivations l))
     (licenses (snd (validatePOST demoEnv (demoRequest ''fp-device-A'')
        (demoWorld (demoLicense\<lparr>status := INACTIVE, browserFingerprint := None\<rparr>)))))
     = [(2, 1)] \<and>
   fst (activatePOST demoEnv (demoRequest ''fp-device-A'')
        (demoWorld (demoLicense\<lparr>status := INACTIVE, browserFingerprint := None\<rparr>)))
     = ErrorResponse 403 ''MAX_ACTIVATIONS'' NoDetails"
  by (simp add: demo_defs)

text \<open>
  C1, on the code. The license is freshly issued: inactive, no device bound, none of its
  single activation used. Two validation requests for it, from device A and from device
  B, are handled at the same time, and their handlers meet at the awaits of step 7: both
  run \<^verbatim>\<open>checkDeviceBinding\<close> before either runs \<^verbatim>\<open>bindDevice\<close>. Both checks report a
  first activation, since neither looks at the quota and no device is bound yet; both
  bindings then increment, since the update is not conditional on the count. The row ends
  bound to device B with \<open>activationCount = 2\<close> and \<open>maxActivations = 1\<close>. The arguments
  are those the validation route passes.
\<close>

theorem interleaved_first_activations_exceed_quota:
  "fst (checkDeviceBinding (\<lambda>n. False) ''lic_1'' ''fp-device-A''
          (demoWorld (demoLicense\<lparr>status := INACTIVE, browserFingerprint := None,
                                    activationCount := 0\<rparr>)))
     = Inr \<lparr>isValid = True, isFirstActivation = True, canSwap = False, swapsRemaining = 1,
            boundDevice = None, errorCode = None\<rparr> \<and>
   fst (checkDeviceBinding (\<lambda>n. False) ''lic_1'' ''fp-device-B''
          (snd (checkDeviceBinding (\<lambda>n. False) ''lic_1'' ''fp-device-A''
                  (demoWorld (demoLicense\<lparr>status := INACTIVE, browserFingerprint := None,
                                            activationCount := 0\<rparr>)))))
     = Inr \<lparr>isValid = True, isFirstActivation = True, canSwap = False, swapsRemaining = 1,
            boundDevice = None, errorCode = None\<rparr> \<and>
   map (\<lambda>l. (browserFingerprint l, activationCount l, maxActivations l))
     (licenses
        (snd (bindDevice (\<lambda>n. False) 2000 ''lic_1'' ''fp-device-B'' None
                (Some ''Chrome Extension v1.0.0'') (Some ''10.0.0.7'')
           (snd (bindDevice (\<lambda>n. False) 2000 ''lic_1'' ''fp-device-A'' None
                   (Some ''Chrome Extension v1.0.0'') (Some ''10.0.0.7'')
              (snd (checkDeviceBinding (\<lambda>n. False) ''lic_1'' ''fp-device-B''
                 (snd (checkDeviceBinding (\<lambda>n. False) ''lic_1'' ''fp-device-A''
                         (demoWorld (demoLicense\<lparr>status := INACTIVE,
                                                   browserFingerprint := None,
                                                   activationCount := 0\<rparr>)))))))))))
     = [(Some ''fp-device-B'', 2, 1)]"
  by (simp add: demo_defs)

text \<open>
  Served one after the other, the same two requests leave the count at 1: the second
  finds device A bound and is answered with a mismatch.
\<close>

lemma sequential_first_activations_within_quota:
  "map (\<lambda>l. (browserFingerprint l, activationCount l, maxActivations l))
     (licenses
        (snd (validatePOST demoEnv (demoRequest ''fp-device-B'')
           (snd (validatePOST demoEnv (demoRequest ''fp-device-A'')
              (demoWorld (demoLicense\<lparr>status := INACTIVE, browserFingerprint := None,
                                        activationCount := 0\<rparr>)))))))
     = [(Some ''fp-device-A'', 1, 1)]"
  by (simp add: demo_defs)

subsection \<open>The error code of a device mismatch\<close>

text \<open>
  The device binding manager itself reports a mismatch as the specification says: the
  error code is \<open>DEVICE_MISMATCH\<close> while an activation is left and
  \<open>MAX_ACTIVATIONS_REACHED\<close> once the quota is used up, and the store is only read.
\<close>

lemma checkDeviceBinding_mismatch:
  assumes "\<not> outage (dbCalls w)" and "find (\<lambda>x. licId x = i) (licenses w) = Some l"
    and "truthy (browserFingerprint l)" and "browserFingerprint l \<noteq> Some fp"
  shows "\<exists>r. checkDeviceBinding outage i fp w = (Inr r, w\<lparr>dbCalls := dbCalls w + 1\<rparr>) \<and>
           \<not> isValid r \<and>
           errorCode r = Some (if activationCount l < maxActivations l then DEVICE_MISMATCH
                               else MAX_ACTIVATIONS_REACHED)"
  using assms
  by (simp add: checkDeviceBinding_def findLicenseById_def storeCall_def andThen_def Let_def)

lemma andThen_Inr: "andThen (Inr a, s) f = f a s"
  by (simp add: andThen_def)

text \<open>
  The route, from step 6 on, answers every mismatch with the code \<open>DEVICE_MISMATCH\<close>: the
  quota only shows in \<open>canSwap\<close> and \<open>swapsRemaining\<close>. The license table is not written.
\<close>

lemma validateLicense_mismatch:
  assumes "\<not> isBanned l" and "status l \<noteq> EXPIRED" and "\<not> expiryPassed e l"
    and "\<not> storeOutage e (dbCalls w)"
    and "find (\<lambda>x. licId x = licId l) (licenses w) = Some l"
    and "truthy (browserFingerprint l)" and "browserFingerprint l \<noteq> Some fp"
  shows "fst (validateLicense e rq p fp ver l w)
           = Inr (ErrorResponse 403 ''DEVICE_MISMATCH''
                    (Mismatch (orDefault (deviceName l) ''Unknown Device'')
                       (activationCount l < maxActivations l)
                       (max 0 (maxActivations l - activationCount l)))) \<and>
         licenses (snd (validateLicense e rq p fp ver l w)) = licenses w"
proof -
  have cb: "checkDeviceBinding (storeOutage e) (licId l) fp w =
      (Inr \<lparr>isValid = False, isFirstActivation = False,
            canSwap = (activationCount l < maxActivations l),
            swapsRemaining = max 0 (maxActivations l - activationCount l),
            boundDevice = (if truthy (deviceName l) then deviceName l else None),
            errorCode = Some (if activationCount l < maxActivations l then DEVICE_MISMATCH
                              else MAX_ACTIVATIONS_REACHED)\<rparr>,
       w\<lparr>dbCalls := dbCalls w + 1\<rparr>)"
    using assms(4-7)
    by (simp add: checkDeviceBinding_def findLicenseById_def storeCall_def andThen_def Let_def)
  have od: "orDefault (if truthy (deviceName l) then deviceName l else None) ''Unknown Device''
        = orDefault (deviceName l) ''Unknown Device''"
    by (auto simp: orDefault_def truthy_def split: option.splits)
  show ?thesis
    using assms(1-3)
    by (simp add: validateLicense_def deviceBindingStep_def cb od andThen_logValidation
          logValidation_table reply_def andThen_Inr)
qed


subsection \<open>Expiry at validation time\<close>

text \<open>
  The validation route, from step 6 on, answers an expired license without writing the
  license table, whatever the license and the request are.
\<close>

lemma validateLicense_expired:
  assumes "\<not> isBanned l" and "expiryPassed e l"
  shows "fst (validateLicense e rq p fp ver l w)
           = Inr (ErrorResponse 403 ''LICENSE_EXPIRED'' (ExpiresAt (expiresAt l))) \<and>
         licenses (snd (validateLicense e rq p fp ver l w)) = licenses w"
  using assms
  by (simp add: validateLicense_def andThen_logValidation reply_def logValidation_table)

text \<open>
  C7, on the code. The license is active and its expiry instant (1000) lies before the
  request (2000). The validation route answers \<open>LICENSE_EXPIRED\<close> and leaves the stored
  status \<open>ACTIVE\<close>; the extension activation route, given the same license, stores
  \<open>EXPIRED\<close> before it answers.
\<close>

theorem validate_expiry_not_persisted:
  "fst (validatePOST demoEnv (demoRequest ''fp-device-A'')
          (demoWorld (demoLicense\<lparr>expiresAt := Some 1000\<rparr>)))
     = ErrorResponse 403 ''LICENSE_EXPIRED'' (ExpiresAt (Some 1000)) \<and>
   map status (licenses (snd (validatePOST demoEnv (demoRequest ''fp-device-A'')
          (demoWorld (demoLicense\<lparr>expiresAt := Some 1000\<rparr>))))) = [ACTIVE] \<and>
   map status (licenses (snd (extensionActivatePOST demoEnv (demoRequest ''fp-device-A'')
          (demoWorld (demoLicense\<lparr>expiresAt := Some 1000\<rparr>))))) = [EXPIRED]"
  by (simp add: demo_defs)

end
